theory Spec2Isabelle
  imports Main "HOL-Library.Char_ord" "HOL-Library.List_Lexorder" "HOL-Library.Multiset"
begin

section \<open>Values and exceptions of the script\<close>

text \<open>
  The script \<^verbatim>\<open>rofi-apps.py\<close> lists desktop entries for a launcher menu. Its
  collaborators are libraries (Gio, \<^verbatim>\<open>re\<close>, \<^verbatim>\<open>json\<close>, \<^verbatim>\<open>locale\<close>, \<^verbatim>\<open>pathlib\<close>) and the
  file system; they are parameters of the model. Every exception the script can meet is a
  value of type \<open>exn\<close>, and a function that may raise returns \<open>exn + 'a\<close>.
\<close>

datatype exn =
    TypeError string
  | NameError string
  | AttributeError string
  | IndexError string
  | KeyError string
  | ReError string
  | OSError
  | JSONDecodeError
  | LocaleError string

text \<open>What \<^verbatim>\<open>json.loads\<close> returns; an object keeps its members in document order.\<close>

datatype json =
    JNull
  | JBool bool
  | JInt int
  | JFloat string
  | JString string
  | JArray "json list"
  | JObject "(string \<times> json) list"

text \<open>
  A rule is a dict read from the configuration, that is the members of a JSON object:
  \<^verbatim>\<open>len(rule)\<close> is zero for the empty list only, \<^verbatim>\<open>key in rule\<close> and \<^verbatim>\<open>rule[key]\<close>
  are \<open>map_of\<close>.
\<close>

type_synonym rule = "(string \<times> json) list"

record 'a Config =
  blacklist :: 'a
  pinned :: 'a
  customs :: 'a

definition getBlacklist :: "'a Config \<Rightarrow> 'a" where
  "getBlacklist config = blacklist config"

definition getPinned :: "'a Config \<Rightarrow> 'a" where
  "getPinned config = pinned config"

definition getCustoms :: "'a Config \<Rightarrow> 'a" where
  "getCustoms config = customs config"

section \<open>Desktop entries\<close>

text \<open>
  A \<^verbatim>\<open>Gio.DesktopAppInfo\<close> as far as the script reads it. An icon is a
  \<^verbatim>\<open>Gio.FileIcon\<close> (with the result of \<^verbatim>\<open>get_file()\<close>, itself carrying the result of
  \<^verbatim>\<open>get_path()\<close>), a \<^verbatim>\<open>Gio.ThemedIcon\<close> (with \<^verbatim>\<open>get_names()\<close>) or an icon of
  another class.
\<close>

datatype icon =
    FileIcon "string option option"
  | ThemedIcon "string list"
  | OtherIcon

record DesktopAppInfo =
  get_nodisplay :: bool
  get_name :: string
  get_commandline :: string
  get_filename :: string
  get_icon :: "icon option"

record Entry =
  entry :: DesktopAppInfo
  customName :: "string option"

text \<open>
  The libraries and the file system the script runs against: \<^verbatim>\<open>re.search\<close> (whether a
  match object is returned, or the exception raised), \<^verbatim>\<open>locale.strxfrm\<close>,
  \<^verbatim>\<open>Path(...).name\<close>, \<^verbatim>\<open>Path.rglob("*")\<close> for each of the three roots,
  \<^verbatim>\<open>Path.is_dir\<close>, \<^verbatim>\<open>Gio.DesktopAppInfo.new_from_filename\<close> (\<open>Inl m\<close>: the
  constructor raises \<^verbatim>\<open>TypeError(m)\<close>) and \<^verbatim>\<open>locale.setlocale(locale.LC_ALL, '')\<close>
  (\<open>Some x\<close>: it raises \<open>x\<close>).
\<close>

datatype root = UserLocal | UsrLocal | UsrShare

record env =
  re_search :: "json \<Rightarrow> string \<Rightarrow> exn + bool"
  strxfrm :: "string \<Rightarrow> string"
  path_name :: "string \<Rightarrow> string"
  rglob :: "root \<Rightarrow> string list"
  is_dir :: "string \<Rightarrow> bool"
  new_from_filename :: "string \<Rightarrow> string + DesktopAppInfo"
  setlocale :: "exn option"

definition Entry_init :: "env \<Rightarrow> string \<Rightarrow> exn + Entry" where
  "Entry_init E path =
     (case new_from_filename E path of
        Inl m \<Rightarrow> Inl (TypeError m)
      | Inr d \<Rightarrow> Inr \<lparr>entry = d, customName = None\<rparr>)"

definition getNoDisplay :: "Entry \<Rightarrow> bool" where
  "getNoDisplay e = get_nodisplay (entry e)"

text \<open>
  \<^verbatim>\<open>if self.customName: return customName\<close>: the test is Python truthiness (neither
  \<^verbatim>\<open>None\<close> nor the empty string), and the name returned is the global \<^verbatim>\<open>customName\<close>,
  which the module never binds, so that branch raises \<^verbatim>\<open>NameError\<close>.
\<close>

definition truthy :: "string option \<Rightarrow> bool" where
  "truthy v = (case v of None \<Rightarrow> False | Some s \<Rightarrow> s \<noteq> [])"

definition getName :: "Entry \<Rightarrow> exn + string" where
  "getName e =
     (if truthy (customName e) then Inl (NameError ''name 'customName' is not defined'')
      else Inr (get_name (entry e)))"

definition getCommandLine :: "Entry \<Rightarrow> string" where
  "getCommandLine e = get_commandline (entry e)"

definition getPath :: "Entry \<Rightarrow> string" where
  "getPath e = get_filename (entry e)"

definition getFilename :: "env \<Rightarrow> Entry \<Rightarrow> string" where
  "getFilename E e = path_name E (getPath e)"

section \<open>Rule matching\<close>

text \<open>
  \<^verbatim>\<open>matchRule\<close>: an empty dict never matches; otherwise \<^verbatim>\<open>match\<close> starts true and each
  of the keys \<^verbatim>\<open>"name"\<close> and \<^verbatim>\<open>"exec"\<close> that is present narrows it with \<^verbatim>\<open>&=\<close>. Both
  searches run when both keys are present (\<^verbatim>\<open>&=\<close> does not short-cut).
\<close>

definition matchRule :: "env \<Rightarrow> Entry \<Rightarrow> rule \<Rightarrow> exn + bool" where
  "matchRule E e rule =
     (if rule = [] then Inr False
      else
        (case (case map_of rule ''name'' of
                 None \<Rightarrow> Inr True
               | Some p \<Rightarrow>
                   (case getName e of
                      Inl x \<Rightarrow> Inl x
                    | Inr n \<Rightarrow>
                        (case re_search E p n of
                           Inl x \<Rightarrow> Inl x
                         | Inr found \<Rightarrow> Inr (True \<and> found)))) of
           Inl x \<Rightarrow> Inl x
         | Inr match \<Rightarrow>
             (case map_of rule ''exec'' of
                None \<Rightarrow> Inr match
              | Some p \<Rightarrow>
                  (case re_search E p (getCommandLine e) of
                     Inl x \<Rightarrow> Inl x
                   | Inr found \<Rightarrow> Inr (match \<and> found)))))"

text \<open>\<^verbatim>\<open>isBlacklisted\<close>: the rules in order, until one matches or raises.\<close>

fun first_match :: "env \<Rightarrow> Entry \<Rightarrow> rule list \<Rightarrow> exn + bool" where
  "first_match E e [] = Inr False"
| "first_match E e (rule # rules) =
     (case matchRule E e rule of
        Inl x \<Rightarrow> Inl x
      | Inr True \<Rightarrow> Inr True
      | Inr False \<Rightarrow> first_match E e rules)"

definition isBlacklisted :: "env \<Rightarrow> Entry \<Rightarrow> rule list Config \<Rightarrow> exn + bool" where
  "isBlacklisted E e config = first_match E e (getBlacklist config)"

text \<open>\<^verbatim>\<open>indexOfPinned\<close>: the index of the first matching pinned rule, or \<open>-1\<close>.\<close>

fun indexOfPinned_from :: "env \<Rightarrow> Entry \<Rightarrow> int \<Rightarrow> rule list \<Rightarrow> exn + int" where
  "indexOfPinned_from E e i [] = Inr (- 1)"
| "indexOfPinned_from E e i (rule # rules) =
     (case matchRule E e rule of
        Inl x \<Rightarrow> Inl x
      | Inr True \<Rightarrow> Inr i
      | Inr False \<Rightarrow> indexOfPinned_from E e (i + 1) rules)"

definition indexOfPinned :: "env \<Rightarrow> Entry \<Rightarrow> rule list Config \<Rightarrow> exn + int" where
  "indexOfPinned E e config = indexOfPinned_from E e 0 (getPinned config)"

section \<open>Icons and output records\<close>




section \<open>The collection pipeline\<close>

text \<open>
  The state of \<^verbatim>\<open>main\<close>: its two lists and the two output streams, one element for
  each \<^verbatim>\<open>print\<close> call (the text without the newline that ends it).
\<close>

record pstate =
  entriesPinned :: "Entry list"
  entriesSorted :: "Entry list"
  stdout :: "string list"
  stderr :: "string list"


text \<open>Both lists start empty, and nothing has been printed.\<close>

definition initial :: pstate where
  "initial = \<lparr>entriesPinned = [], entriesSorted = [], stdout = [], stderr = []\<rparr>"

text \<open>
  The body of the \<^verbatim>\<open>try\<close> block for one path: \<open>Inr\<close> with the lists as they are after
  it, or \<open>Inl\<close> the exception raised (nothing is appended before a raise).
\<close>

definition try_body :: "env \<Rightarrow> rule list Config \<Rightarrow> pstate \<Rightarrow> string \<Rightarrow> exn + pstate" where
  "try_body E config st entryPath =
     (case Entry_init E entryPath of
        Inl x \<Rightarrow> Inl x
      | Inr e \<Rightarrow>
          if getNoDisplay e then Inr st
          else
            (case isBlacklisted E e config of
               Inl x \<Rightarrow> Inl x
             | Inr True \<Rightarrow> Inr st
             | Inr False \<Rightarrow>
                 if getFilename E e \<in> set (map (getFilename E) (entriesPinned st @ entriesSorted st))
                 then Inr st
                 else Inr (st\<lparr>entriesSorted := entriesSorted st @ [e]\<rparr>)))"

text \<open>
  One turn of the inner loop: a directory is skipped; a \<^verbatim>\<open>TypeError\<close> from the
  \<^verbatim>\<open>try\<close> block is reported with two \<^verbatim>\<open>print\<close> calls and the loop goes on; any other
  exception leaves \<^verbatim>\<open>main\<close>.
\<close>

definition process_file ::
  "env \<Rightarrow> rule list Config \<Rightarrow> pstate \<Rightarrow> string \<Rightarrow> pstate \<times> exn option" where
  "process_file E config st entryPath =
     (if is_dir E entryPath then (st, None)
      else
        (case try_body E config st entryPath of
           Inr st' \<Rightarrow> (st', None)
         | Inl (TypeError m) \<Rightarrow>
             (st\<lparr>stderr := stderr st @
                 [''[@] TypeError while processing '' @ entryPath @
                    ''. Probably not a desktop entry.'',
                  ''[@] '' @ m]\<rparr>,
              None)
         | Inl x \<Rightarrow> (st, Some x)))"

fun for_files ::
  "env \<Rightarrow> rule list Config \<Rightarrow> pstate \<Rightarrow> string list \<Rightarrow> pstate \<times> exn option" where
  "for_files E config st [] = (st, None)"
| "for_files E config st (entryPath # rest) =
     (case process_file E config st entryPath of
        (st', None) \<Rightarrow> for_files E config st' rest
      | (st', Some x) \<Rightarrow> (st', Some x))"


text \<open>
  \<^verbatim>\<open>entriesSorted.sort(key=...)\<close>: the key of every element is computed first (a raise
  leaves the sort), then the elements are sorted by key, stably.
\<close>

definition sort_key_of :: "env \<Rightarrow> Entry \<Rightarrow> exn + string" where
  "sort_key_of E e = (case getName e of Inl x \<Rightarrow> Inl x | Inr n \<Rightarrow> Inr (strxfrm E n))"

fun keys_of :: "env \<Rightarrow> Entry list \<Rightarrow> exn + string list" where
  "keys_of E [] = Inr []"
| "keys_of E (e # es) =
     (case sort_key_of E e of
        Inl x \<Rightarrow> Inl x
      | Inr k \<Rightarrow> (case keys_of E es of Inl x \<Rightarrow> Inl x | Inr ks \<Rightarrow> Inr (k # ks)))"

definition sort_entries :: "env \<Rightarrow> Entry list \<Rightarrow> exn + Entry list" where
  "sort_entries E es =
     (case keys_of E es of
        Inl x \<Rightarrow> Inl x
      | Inr ks \<Rightarrow> Inr (map snd (sort_key fst (zip ks es))))"




section \<open>Loading the configuration\<close>

text \<open>
  \<^verbatim>\<open>re.sub("//.*?$", "", configJson, flags=re.M)\<close>: scanning from the left, each
  \<^verbatim>\<open>//\<close> is removed together with everything up to the end of its line (\<^verbatim>\<open>.\<close> does not
  match a newline, \<^verbatim>\<open>$\<close> matches before one and at the end of the text); the newline
  stays.
\<close>

function strip_comments :: "string \<Rightarrow> string" where
  "strip_comments [] = []"
| "strip_comments [c] = [c]"
| "strip_comments (c # d # cs) =
     (if c = CHR ''/'' \<and> d = CHR ''/''
      then strip_comments (dropWhile (\<lambda>x. x \<noteq> CHR 0x0A) cs)
      else c # strip_comments (d # cs))"
  by pat_completeness auto
termination
  by (relation "measure length") (auto simp: less_Suc_eq_le length_dropWhile_le le_SucI)

text \<open>
  Subscripting the parsed document with a string: a dict gives the member or
  \<^verbatim>\<open>KeyError\<close>; every other JSON value raises \<^verbatim>\<open>TypeError\<close> (\<open>not_subscriptable\<close> is
  its message, which the script never reads). An object read by \<^verbatim>\<open>json.loads\<close> has each
  key once.
\<close>

fun not_subscriptable :: "json \<Rightarrow> string" where
  "not_subscriptable (JArray xs) = ''list indices must be integers or slices, not str''"
| "not_subscriptable (JString s) = ''string indices must be integers''"
| "not_subscriptable v = ''object is not subscriptable''"

fun getitem :: "json \<Rightarrow> string \<Rightarrow> exn + json" where
  "getitem (JObject kvs) k =
     (case map_of kvs k of None \<Rightarrow> Inl (KeyError k) | Some v \<Rightarrow> Inr v)"
| "getitem v k = Inl (TypeError (not_subscriptable v))"

text \<open>
  \<^verbatim>\<open>Config.__init__\<close>, given what reading the file gives (\<open>None\<close>: \<^verbatim>\<open>open\<close> or
  \<^verbatim>\<open>read\<close> raises) and \<^verbatim>\<open>json.loads\<close> (\<open>None\<close>: it raises).
\<close>

definition Config_init :: "(string \<Rightarrow> json option) \<Rightarrow> string option \<Rightarrow> exn + json Config" where
  "Config_init json_loads content =
     (case content of
        None \<Rightarrow> Inl OSError
      | Some configJson \<Rightarrow>
          (case json_loads (strip_comments configJson) of
             None \<Rightarrow> Inl JSONDecodeError
           | Some config \<Rightarrow>
               (case getitem config ''blacklist'' of
                  Inl x \<Rightarrow> Inl x
                | Inr b \<Rightarrow>
                    (case getitem config ''pinned'' of
                       Inl x \<Rightarrow> Inl x
                     | Inr p \<Rightarrow>
                         (case getitem config ''customs'' of
                            Inl x \<Rightarrow> Inl x
                          | Inr c \<Rightarrow> Inr \<lparr>blacklist = b, pinned = p, customs = c\<rparr>)))))"

section \<open>Notions used to state the properties\<close>


text \<open>
  The entry a path offers to the duplicate check: the path is no directory, it parses,
  the entry is not hidden and no blacklist rule matches it.
\<close>

definition candidate :: "env \<Rightarrow> rule list Config \<Rightarrow> string \<Rightarrow> Entry option" where
  "candidate E config p =
     (if is_dir E p then None
      else
        (case Entry_init E p of
           Inl x \<Rightarrow> None
         | Inr e \<Rightarrow>
             if getNoDisplay e then None
             else (case isBlacklisted E e config of Inr False \<Rightarrow> Some e | _ \<Rightarrow> None)))"




text \<open>
  The sort key of an entry whose name is the descriptor's, and the comparison of display
  names that the keys give: Python compares the transformed strings code point by code
  point.
\<close>

definition collation_key :: "env \<Rightarrow> Entry \<Rightarrow> string" where
  "collation_key E e = strxfrm E (get_name (entry e))"

definition name_le :: "env \<Rightarrow> string \<Rightarrow> string \<Rightarrow> bool" where
  "name_le E a b = (strxfrm E a \<le> strxfrm E b)"


text \<open>Whether \<^verbatim>\<open>//\<close> occurs in a text, and whether a parsed document has a member.\<close>

fun has_comment :: "string \<Rightarrow> bool" where
  "has_comment [] = False"
| "has_comment [c] = False"
| "has_comment (c # d # cs) = ((c = CHR ''/'' \<and> d = CHR ''/'') \<or> has_comment (d # cs))"

fun has_member :: "json \<Rightarrow> string \<Rightarrow> bool" where
  "has_member (JObject kvs) k = (map_of kvs k \<noteq> None)"
| "has_member v k = False"

section \<open>An example run\<close>

text \<open>
  A small installation for the concrete instances below. \<^verbatim>\<open>re.search\<close> is given for
  patterns without metacharacters, where it is substring search; \<^verbatim>\<open>strxfrm\<close> is that of
  the C locale; \<^verbatim>\<open>Path(...).name\<close> is the text after the last slash. The user hides
  \<^verbatim>\<open>vim.desktop\<close> in their own directory; the system directory holds a subdirectory,
  a cache file that is no desktop entry, and two entries.
\<close>

fun contains :: "string \<Rightarrow> string \<Rightarrow> bool" where
  "contains t [] = (t = [])"
| "contains t (c # cs) = (take (length t) (c # cs) = t \<or> contains t cs)"

definition literal_search :: "json \<Rightarrow> string \<Rightarrow> exn + bool" where
  "literal_search p s =
     (case p of
        JString t \<Rightarrow> Inr (contains t s)
      | _ \<Rightarrow> Inl (TypeError ''first argument must be string or compiled pattern''))"

definition base_name :: "string \<Rightarrow> string" where
  "base_name p = rev (takeWhile (\<lambda>c. c \<noteq> CHR ''/'') (rev p))"

definition ex_vim_user :: DesktopAppInfo where
  "ex_vim_user = \<lparr>get_nodisplay = True, get_name = ''Vim'', get_commandline = ''vim %F'',
     get_filename = ''/home/u/.local/share/applications/vim.desktop'',
     get_icon = Some (ThemedIcon [''gvim''])\<rparr>"

definition ex_vim :: DesktopAppInfo where
  "ex_vim = \<lparr>get_nodisplay = False, get_name = ''Vim'', get_commandline = ''vim %F'',
     get_filename = ''/usr/share/applications/vim.desktop'', get_icon = None\<rparr>"

definition ex_files :: DesktopAppInfo where
  "ex_files = \<lparr>get_nodisplay = False, get_name = ''Files'', get_commandline = ''nautilus'',
     get_filename = ''/usr/share/applications/files.desktop'',
     get_icon = Some (ThemedIcon [''system-file-manager''])\<rparr>"

definition ex_env :: env where
  "ex_env = \<lparr>
     re_search = literal_search,
     strxfrm = (\<lambda>s. s),
     path_name = base_name,
     rglob = (\<lambda>r. case r of
        UserLocal \<Rightarrow> [''/home/u/.local/share/applications/vim.desktop'']
      | UsrLocal \<Rightarrow> []
      | UsrShare \<Rightarrow> [''/usr/share/applications/kde'',
          ''/usr/share/applications/mimeinfo.cache'',
          ''/usr/share/applications/vim.desktop'',
          ''/usr/share/applications/files.desktop'']),
     is_dir = (\<lambda>p. p = ''/usr/share/applications/kde''),
     new_from_filename = (\<lambda>p.
        if p = ''/home/u/.local/share/applications/vim.desktop'' then Inr ex_vim_user
        else if p = ''/usr/share/applications/vim.desktop'' then Inr ex_vim
        else if p = ''/usr/share/applications/files.desktop'' then Inr ex_files
        else Inl ''constructor returned NULL''),
     setlocale = None\<rparr>"

definition ex_config :: "rule list Config" where
  "ex_config = \<lparr>blacklist = [[(''name'', JString ''Hidden'')]], pinned = [], customs = []\<rparr>"


text \<open>
  A configuration file with a comment, the text left of it after stripping, and a
  \<^verbatim>\<open>json.loads\<close> that knows this one document.
\<close>

definition ex_text :: string where
  \<open>ex_text = ''{"blacklist": [{"name": "Hidden"}], // hide these'' @ [CHR 0x0A] @
     ''"pinned": [], "customs": []}''\<close>

definition ex_loads :: "string \<Rightarrow> json option" where
  \<open>ex_loads t =
     (if t = ''{"blacklist": [{"name": "Hidden"}], '' @ [CHR 0x0A] @ ''"pinned": [], "customs": []}''
      then Some (JObject [(''blacklist'', JArray [JObject [(''name'', JString ''Hidden'')]]),
                          (''pinned'', JArray []), (''customs'', JArray [])])
      else if t = ''{"blacklist": [], "pinned": []}''
      then Some (JObject [(''blacklist'', JArray []), (''pinned'', JArray [])])
      else None)\<close>

section \<open>Properties\<close>

subsection \<open>Rule matching and names\<close>

lemma matchRule_no_recognized_key:
  "map_of rule ''name'' = None \<Longrightarrow> map_of rule ''exec'' = None \<Longrightarrow>
     matchRule E e rule = Inr (rule \<noteq> [])"
  by (simp add: matchRule_def)

subsection \<open>The walk over the discovered files\<close>














subsection \<open>The sort\<close>

lemma keys_of_plain:
  "\<forall>e\<in>set es. \<not> truthy (customName e) \<Longrightarrow> keys_of E es = Inr (map (collation_key E) es)"
  by (induction es) (simp_all add: sort_key_of_def getName_def collation_key_def)

lemma insort_decorated:
  "\<forall>p\<in>set ps. fst p = f (snd p) \<Longrightarrow>
     map snd (insort_key fst (f x, x) ps) = insort_key f x (map snd ps)"
  by (induction ps) auto

lemma sort_decorated:
  "map snd (sort_key fst (zip (map f es) es)) = sort_key f es"
proof (induction es)
  case Nil
  then show ?case by simp
next
  case (Cons x es)
  have "\<forall>p\<in>set (sort_key fst (zip (map f es) es)). fst p = f (snd p)"
    by (auto simp: in_set_zip)
  with Cons show ?case by (simp add: insort_decorated)
qed

lemma sort_entries_plain:
  "\<forall>e\<in>set es. \<not> truthy (customName e) \<Longrightarrow>
     sort_entries E es = Inr (sort_key (collation_key E) es)"
  by (simp add: sort_entries_def keys_of_plain sort_decorated)

lemma keys_of_Inr:
  "keys_of E es = Inr ks \<Longrightarrow> \<forall>e\<in>set es. \<not> truthy (customName e)"
  by (induction es arbitrary: ks)
    (auto simp: sort_key_of_def getName_def split: sum.splits if_splits)

lemma sort_entries_Inr:
  "sort_entries E es = Inr ys \<Longrightarrow> ys = sort_key (collation_key E) es"
proof -
  assume a: "sort_entries E es = Inr ys"
  then obtain ks where "keys_of E es = Inr ks"
    by (auto simp: sort_entries_def split: sum.splits)
  then have "\<forall>e\<in>set es. \<not> truthy (customName e)" by (rule keys_of_Inr)
  with a show ?thesis by (simp add: sort_entries_plain)
qed

lemma name_le_sorted:
  "sorted_wrt (\<lambda>a b. name_le E (get_name (entry a)) (get_name (entry b))) ys =
     sorted (map (collation_key E) ys)"
  by (simp add: sorted_map name_le_def collation_key_def)

subsection \<open>The display loop and whole runs\<close>









subsection \<open>Comment stripping\<close>

lemma strip_no_comment:
  "\<not> has_comment l \<Longrightarrow> strip_comments l = l"
  by (induction l rule: strip_comments.induct) auto







subsection \<open>C1: rules without recognized keys\<close>

text \<open>
  Claim C1, as the code has it: for every entry, \<^verbatim>\<open>matchRule\<close> returns false for the
  empty rule (zero keys). The guard tests \<^verbatim>\<open>len(rule)\<close> only, so this is the one rule
  it rejects.
\<close>

theorem matchRule_empty_rule: "matchRule E e [] = Inr False"
  by (simp add: matchRule_def)

text \<open>The empty rule against the Vim entry of the example.\<close>

theorem matchRule_empty_rule_witness:
  "matchRule ex_env \<lparr>entry = ex_vim, customName = None\<rparr> [] = Inr False"
  by (rule matchRule_empty_rule)

text \<open>
  C1 as stated fails: the rule \<^verbatim>\<open>{"icon": "firefox"}\<close> has neither \<^verbatim>\<open>"name"\<close> nor
  \<^verbatim>\<open>"exec"\<close>, it is not empty, and \<^verbatim>\<open>matchRule\<close> returns true for it.
\<close>

theorem matchRule_unrecognized_key_matches:
  "map_of [(''icon'', JString ''firefox'')] ''name'' = None \<and>
   map_of [(''icon'', JString ''firefox'')] ''exec'' = None \<and>
   matchRule ex_env \<lparr>entry = ex_vim, customName = None\<rparr> [(''icon'', JString ''firefox'')] = Inr True"
  by (simp add: matchRule_def)

subsection \<open>C2: files that fail to parse\<close>

text \<open>
  Claim C2, as the code has it: for a discovered file (no directory) whose descriptor
  parsing fails with \<^verbatim>\<open>TypeError(m)\<close>, the turn of the loop leaves both entry lists
  and the standard output as they are, appends exactly two lines to the error stream (the
  notice naming the file, then the message \<open>m\<close>), and the loop goes on with the
  remaining files; the file is no candidate for the output.
\<close>

theorem parse_failure_skipped:
  assumes "\<not> is_dir E p" and "new_from_filename E p = Inl m"
  shows "process_file E config st p =
           (st\<lparr>stderr := stderr st @
               [''[@] TypeError while processing '' @ p @ ''. Probably not a desktop entry.'',
                ''[@] '' @ m]\<rparr>, None) \<and>
         for_files E config st (p # rest) =
           for_files E config
             (st\<lparr>stderr := stderr st @
               [''[@] TypeError while processing '' @ p @ ''. Probably not a desktop entry.'',
                ''[@] '' @ m]\<rparr>) rest \<and>
         candidate E config p = None"
  using assms by (simp add: process_file_def try_body_def Entry_init_def candidate_def)

text \<open>The cache file of the example, which is no desktop entry.\<close>

theorem parse_failure_skipped_witness:
  "\<not> is_dir ex_env ''/usr/share/applications/mimeinfo.cache'' \<and>
   new_from_filename ex_env ''/usr/share/applications/mimeinfo.cache'' = Inl ''constructor returned NULL'' \<and>
   process_file ex_env ex_config initial ''/usr/share/applications/mimeinfo.cache'' =
     (initial\<lparr>stderr :=
        [''[@] TypeError while processing /usr/share/applications/mimeinfo.cache. Probably not a desktop entry.'',
         ''[@] constructor returned NULL'']\<rparr>, None)"
proof -
  have a: "\<not> is_dir ex_env ''/usr/share/applications/mimeinfo.cache''"
    by (simp add: ex_env_def)
  have b: "new_from_filename ex_env ''/usr/share/applications/mimeinfo.cache'' = Inl ''constructor returned NULL''"
    by (simp add: ex_env_def)
  from parse_failure_skipped [OF a b, of ex_config initial "[]"] a b show ?thesis
    by (simp add: initial_def)
qed

text \<open>
  C2 as stated fails: for the cache file the error stream gets two lines, not one.
\<close>

theorem parse_failure_prints_two_lines:
  "new_from_filename ex_env ''/usr/share/applications/mimeinfo.cache'' = Inl ''constructor returned NULL'' \<and>
   stderr (fst (process_file ex_env ex_config initial ''/usr/share/applications/mimeinfo.cache'')) =
     [''[@] TypeError while processing /usr/share/applications/mimeinfo.cache. Probably not a desktop entry.'',
      ''[@] constructor returned NULL''] \<and>
   length (stderr (fst (process_file ex_env ex_config initial ''/usr/share/applications/mimeinfo.cache''))) = 2"
  by code_simp

subsection \<open>C3: the output records\<close>




subsection \<open>C4: the custom name\<close>

text \<open>
  Claim C4 fails on the code: with a custom name set, \<^verbatim>\<open>getName\<close> does not return it
  but raises \<^verbatim>\<open>NameError\<close>, since it reads the unbound global \<^verbatim>\<open>customName\<close> where
  \<^verbatim>\<open>self.customName\<close> is meant.
\<close>

theorem getName_custom_raises:
  "getName (e\<lparr>customName := Some ''Web Browser''\<rparr>) =
     Inl (NameError ''name 'customName' is not defined'')"
  by (simp add: getName_def truthy_def)

subsection \<open>C5: one entry for each file name\<close>




subsection \<open>C6: rules with a name pattern only\<close>

text \<open>
  Claim C6: for a rule with the key \<^verbatim>\<open>"name"\<close> and without the key \<^verbatim>\<open>"exec"\<close>, the
  result of \<^verbatim>\<open>matchRule\<close> is that of \<^verbatim>\<open>re.search\<close> (the unanchored search of the
  \<^verbatim>\<open>re\<close> module) of the pattern in the entry's display name, so two entries with the
  same name get the same result whatever their command lines are.
\<close>

theorem matchRule_name_only:
  assumes "map_of rule ''name'' = Some p" and "map_of rule ''exec'' = None"
  shows "matchRule E e rule =
           (case getName e of Inl x \<Rightarrow> Inl x | Inr n \<Rightarrow> re_search E p n) \<and>
         (\<forall>e'. getName e' = getName e \<longrightarrow> matchRule E e' rule = matchRule E e rule)"
proof -
  from assms have ne: "rule \<noteq> []" by auto
  have "matchRule E a rule = (case getName a of Inl x \<Rightarrow> Inl x | Inr n \<Rightarrow> re_search E p n)" for a
    using assms ne by (simp add: matchRule_def split: sum.splits)
  then show ?thesis by simp
qed

text \<open>The pattern \<^verbatim>\<open>Vi\<close> is found inside \<^verbatim>\<open>Vim\<close>, whatever the command line.\<close>

theorem matchRule_name_only_witness:
  "map_of [(''name'', JString ''Vi'')] ''name'' = Some (JString ''Vi'') \<and>
   map_of [(''name'', JString ''Vi'')] ''exec'' = None \<and>
   matchRule ex_env \<lparr>entry = ex_vim, customName = None\<rparr> [(''name'', JString ''Vi'')] = Inr True \<and>
   matchRule ex_env \<lparr>entry = ex_vim\<lparr>get_commandline := ''emacs''\<rparr>, customName = None\<rparr>
     [(''name'', JString ''Vi'')] = Inr True"
proof -
  have a: "map_of [(''name'', JString ''Vi'')] ''name'' = Some (JString ''Vi'')" by simp
  have b: "map_of [(''name'', JString ''Vi'')] ''exec'' = None" by simp
  have n: "getName \<lparr>entry = ex_vim\<lparr>get_commandline := ''emacs''\<rparr>, customName = None\<rparr> =
      getName \<lparr>entry = ex_vim, customName = None\<rparr>"
    by (simp add: getName_def)
  have s: "(case getName \<lparr>entry = ex_vim, customName = None\<rparr> of Inl x \<Rightarrow> Inl x
      | Inr n \<Rightarrow> re_search ex_env (JString ''Vi'') n) = Inr True"
    by code_simp
  from matchRule_name_only [OF a b, of ex_env "\<lparr>entry = ex_vim, customName = None\<rparr>"] a b n s
  show ?thesis by simp
qed

subsection \<open>C7: when loading the configuration fails\<close>

text \<open>
  Claim C7: loading the configuration raises exactly when the file cannot be read, or
  \<^verbatim>\<open>json.loads\<close> rejects the text left after stripping the comments, or the parsed
  document lacks one of the members \<^verbatim>\<open>blacklist\<close>, \<^verbatim>\<open>pinned\<close> and \<^verbatim>\<open>customs\<close> (a
  document that is no object has no member); when it does not raise, the three fields are
  these members.
\<close>

theorem Config_init_fails_iff:
  "(isl (Config_init json_loads content) \<longleftrightarrow>
      content = None \<or>
      (\<exists>t. content = Some t \<and>
         (json_loads (strip_comments t) = None \<or>
          (\<exists>d. json_loads (strip_comments t) = Some d \<and>
             (\<not> has_member d ''blacklist'' \<or> \<not> has_member d ''pinned'' \<or>
              \<not> has_member d ''customs''))))) \<and>
   (\<forall>c. Config_init json_loads content = Inr c \<longrightarrow>
      (\<exists>t d. content = Some t \<and> json_loads (strip_comments t) = Some d \<and>
         getitem d ''blacklist'' = Inr (blacklist c) \<and>
         getitem d ''pinned'' = Inr (pinned c) \<and>
         getitem d ''customs'' = Inr (customs c)))"
proof -
  have g: "isl (getitem d k) = (\<not> has_member d k)" for d k
    by (cases d) (auto split: option.splits)
  show ?thesis
  proof (cases content)
    case None
    then show ?thesis by (simp add: Config_init_def)
  next
    case (Some t)
    show ?thesis
    proof (cases "json_loads (strip_comments t)")
      case None
      with Some show ?thesis by (simp add: Config_init_def)
    next
      case (Some d)
      with \<open>content = Some t\<close> g [of d "''blacklist''"] g [of d "''pinned''"] g [of d "''customs''"]
      show ?thesis
        by (auto simp: Config_init_def split: sum.splits)
    qed
  qed
qed

text \<open>An unreadable file, a document without \<^verbatim>\<open>customs\<close>, and a complete one.\<close>

theorem Config_init_fails_iff_witness:
  \<open>isl (Config_init ex_loads None) \<and>
   isl (Config_init ex_loads (Some ''{"blacklist": [], "pinned": []}'')) \<and>
   \<not> isl (Config_init ex_loads (Some ex_text)) \<and>
   Config_init ex_loads (Some ex_text) =
     Inr \<lparr>blacklist = JArray [JObject [(''name'', JString ''Hidden'')]],
          pinned = JArray [], customs = JArray []\<rparr>\<close>
proof -
  have 1: "isl (Config_init ex_loads None)"
    using Config_init_fails_iff [of ex_loads None] by simp
  have s2: \<open>strip_comments ''{"blacklist": [], "pinned": []}'' = ''{"blacklist": [], "pinned": []}''\<close>
    by code_simp
  have l2: \<open>ex_loads ''{"blacklist": [], "pinned": []}'' =
      Some (JObject [(''blacklist'', JArray []), (''pinned'', JArray [])])\<close>
    by code_simp
  have 2: \<open>isl (Config_init ex_loads (Some ''{"blacklist": [], "pinned": []}''))\<close>
    using Config_init_fails_iff [of ex_loads \<open>Some ''{"blacklist": [], "pinned": []}''\<close>] s2 l2
    by simp
  have 3: \<open>Config_init ex_loads (Some ex_text) =
     Inr \<lparr>blacklist = JArray [JObject [(''name'', JString ''Hidden'')]],
          pinned = JArray [], customs = JArray []\<rparr>\<close>
    by code_simp
  from 1 2 3 show ?thesis by simp
qed

subsection \<open>C8: the order of the general list\<close>

text \<open>
  Claim C8: for entries whose names are the descriptors' (as all entries of the pipeline
  are), the sort returns a permutation of the list that is ordered by the comparison of
  the collation keys of the display names; it keeps entries of equal key in their order
  (it is stable); sorting its result again returns it unchanged; and the comparison is
  total and transitive, and antisymmetric on the keys.
\<close>

theorem sort_entries_total_stable:
  assumes "\<forall>e\<in>set es. \<not> truthy (customName e)"
  shows "\<exists>ys. sort_entries E es = Inr ys \<and> mset ys = mset es \<and>
           sorted_wrt (\<lambda>a b. name_le E (get_name (entry a)) (get_name (entry b))) ys \<and>
           (\<forall>k. filter (\<lambda>e. collation_key E e = k) ys = filter (\<lambda>e. collation_key E e = k) es) \<and>
           sort_entries E ys = Inr ys \<and>
           (\<forall>a b. name_le E a b \<or> name_le E b a) \<and>
           (\<forall>a b c. name_le E a b \<and> name_le E b c \<longrightarrow> name_le E a c) \<and>
           (\<forall>a b. name_le E a b \<and> name_le E b a \<longrightarrow> strxfrm E a = strxfrm E b)"
proof -
  let ?ys = "sort_key (collation_key E) es"
  have 1: "sort_entries E es = Inr ?ys" using assms by (rule sort_entries_plain)
  have 2: "mset ?ys = mset es" by simp
  have srt: "sorted (map (collation_key E) ?ys)" by simp
  then have 3: "sorted_wrt (\<lambda>a b. name_le E (get_name (entry a)) (get_name (entry b))) ?ys"
    by (simp only: name_le_sorted)
  have 4: "\<forall>k. filter (\<lambda>e. collation_key E e = k) ?ys = filter (\<lambda>e. collation_key E e = k) es"
    by (simp add: sort_key_stable)
  have "\<forall>e\<in>set ?ys. \<not> truthy (customName e)" using assms by simp
  then have "sort_entries E ?ys = Inr (sort_key (collation_key E) ?ys)"
    by (rule sort_entries_plain)
  moreover have "sort_key (collation_key E) ?ys = ?ys"
    using srt by (rule sort_key_id_if_sorted)
  ultimately have 5: "sort_entries E ?ys = Inr ?ys" by simp
  have 6: "\<forall>a b. name_le E a b \<or> name_le E b a" by (auto simp: name_le_def)
  have 7: "\<forall>a b c. name_le E a b \<and> name_le E b c \<longrightarrow> name_le E a c"
    by (auto simp: name_le_def)
  have 8: "\<forall>a b. name_le E a b \<and> name_le E b a \<longrightarrow> strxfrm E a = strxfrm E b"
    by (auto simp: name_le_def)
  from 1 2 3 4 5 6 7 8 show ?thesis by blast
qed

text \<open>Vim and Files are put in the order Files, Vim.\<close>

theorem sort_entries_total_stable_witness:
  "\<not> truthy (customName \<lparr>entry = ex_vim, customName = None\<rparr>) \<and>
   \<not> truthy (customName \<lparr>entry = ex_files, customName = None\<rparr>) \<and>
   sort_entries ex_env [\<lparr>entry = ex_vim, customName = None\<rparr>, \<lparr>entry = ex_files, customName = None\<rparr>] =
     Inr [\<lparr>entry = ex_files, customName = None\<rparr>, \<lparr>entry = ex_vim, customName = None\<rparr>] \<and>
   (\<exists>ys. sort_entries ex_env
            [\<lparr>entry = ex_vim, customName = None\<rparr>, \<lparr>entry = ex_files, customName = None\<rparr>] = Inr ys \<and>
      sorted_wrt (\<lambda>a b. name_le ex_env (get_name (entry a)) (get_name (entry b))) ys \<and>
      sort_entries ex_env ys = Inr ys)"
proof -
  have h: "\<forall>e\<in>set [\<lparr>entry = ex_vim, customName = None\<rparr>, \<lparr>entry = ex_files, customName = None\<rparr>].
      \<not> truthy (customName e)"
    by (simp add: truthy_def)
  have v: "sort_entries ex_env
      [\<lparr>entry = ex_vim, customName = None\<rparr>, \<lparr>entry = ex_files, customName = None\<rparr>] =
     Inr [\<lparr>entry = ex_files, customName = None\<rparr>, \<lparr>entry = ex_vim, customName = None\<rparr>]"
    by code_simp
  from sort_entries_total_stable [OF h, of ex_env] obtain ys where
    "sort_entries ex_env
       [\<lparr>entry = ex_vim, customName = None\<rparr>, \<lparr>entry = ex_files, customName = None\<rparr>] = Inr ys"
    "sorted_wrt (\<lambda>a b. name_le ex_env (get_name (entry a)) (get_name (entry b))) ys"
    "sort_entries ex_env ys = Inr ys"
    by blast
  with v show ?thesis by (auto simp: truthy_def)
qed

subsection \<open>C9: the pinned list\<close>



subsection \<open>C10: comments inside string literals\<close>



end
